theory Spec2Isabelle
  imports Complex_Main
begin

section \<open>Monte Carlo option pricing: the notebook as HOL functions\<close>

text \<open>
  The notebook \<^verbatim>\<open>Monte_Carlo_Option_Pricing.ipynb\<close> is a script over bare globals. Each
  statement of its cells becomes a definition below, with the globals it reads as parameters.
  Floats are read as real numbers: rounding is not modelled. Where the Python run raises, the
  model returns \<open>Inl\<close> of the exception. Where the run raises nothing but its result is
  \<^verbatim>\<open>nan\<close>, \<^verbatim>\<open>inf\<close> or complex, no real number describes the outcome and the model
  returns \<open>Inl NotReal\<close>. Where \<^verbatim>\<open>nan\<close>, \<^verbatim>\<open>inf\<close> and signed zeros are values
  the code computes with (the means of empty rows, the division by zero in the Black-Scholes
  formula), they are values of the type \<open>npfloat\<close> below.
\<close>

datatype failure =
    AssertionError
  | ZeroDivisionError
  | ValueError
  | IndexError
  | NameError
  | NotReal

subsection \<open>Inputs and their validation (cells 4 and 6)\<close>

text \<open>The globals are dynamically typed: the assertions of cell 6 test their types.\<close>

datatype pyval = PyInt int | PyFloat real | PyStr string

record inputs =
  in_S0 :: pyval
  in_K :: pyval
  in_T :: pyval
  in_rf :: pyval
  in_sigma :: pyval
  in_n_simul :: pyval
  in_dt :: pyval
  in_option_type :: pyval
  in_option_nature :: pyval

text \<open>\<^verbatim>\<open>isinstance(v, (int, float))\<close> and \<^verbatim>\<open>isinstance(v, int)\<close>.\<close>

fun is_number :: "pyval \<Rightarrow> bool" where
  "is_number (PyInt _) = True"
| "is_number (PyFloat _) = True"
| "is_number (PyStr _) = False"

fun is_int :: "pyval \<Rightarrow> bool" where
  "is_int (PyInt _) = True"
| "is_int (PyFloat _) = False"
| "is_int (PyStr _) = False"

text \<open>
  The value of a number in arithmetic (an int is promoted to a float). It is applied only
  after the assertions, hence never to a string.
\<close>

fun num :: "pyval \<Rightarrow> real" where
  "num (PyInt i) = real_of_int i"
| "num (PyFloat x) = x"
| "num (PyStr _) = 0"

text \<open>\<^verbatim>\<open>v in [s1, s2]\<close> for a list of two string literals.\<close>

fun in_strings :: "pyval \<Rightarrow> string list \<Rightarrow> bool" where
  "in_strings (PyStr s) choices = (s \<in> set choices)"
| "in_strings (PyInt _) choices = False"
| "in_strings (PyFloat _) choices = False"

fun str_of :: "pyval \<Rightarrow> string" where
  "str_of (PyStr s) = s"
| "str_of (PyInt _) = []"
| "str_of (PyFloat _) = []"

definition input_validation :: "inputs \<Rightarrow> failure + unit" where
  "input_validation c =
     (if \<not> is_number (in_S0 c) then Inl AssertionError
      else if \<not> is_number (in_K c) then Inl AssertionError
      else if \<not> is_number (in_T c) then Inl AssertionError
      else if \<not> is_number (in_rf c) then Inl AssertionError
      else if \<not> is_number (in_sigma c) then Inl AssertionError
      else if \<not> is_int (in_n_simul c) then Inl AssertionError
      else if \<not> is_number (in_dt c) then Inl AssertionError
      else if \<not> in_strings (in_option_type c) [''call'', ''put''] then Inl AssertionError
      else if \<not> in_strings (in_option_nature c) [''european'', ''asiatic''] then Inl AssertionError
      else Inr ())"

text \<open>The values cell 4 assigns.\<close>

definition notebook_inputs :: inputs where
  "notebook_inputs =
     \<lparr>in_S0 = PyInt 100, in_K = PyInt 90, in_T = PyFloat (1 / 2), in_rf = PyFloat (1 / 50),
      in_sigma = PyFloat (1 / 5), in_n_simul = PyInt 100000, in_dt = PyFloat (1 / 252),
      in_option_type = PyStr ''call'', in_option_nature = PyStr ''european''\<rparr>"

subsection \<open>NumPy floats: infinities, signed zeros and nan\<close>

text \<open>
  A float is a real number (\<open>Fin 0\<close> is the positive zero), the negative zero, an infinity or
  \<^verbatim>\<open>nan\<close>. The operations follow IEEE 754 as NumPy applies it (a warning, no exception);
  the rounding of finite results is not modelled.
\<close>

datatype npfloat = Fin real | NegZero | PosInf | NegInf | NaN

fun is_fin :: "npfloat \<Rightarrow> bool" where
  "is_fin (Fin _) = True"
| "is_fin NegZero = True"
| "is_fin PosInf = False"
| "is_fin NegInf = False"
| "is_fin NaN = False"

fun is_inf :: "npfloat \<Rightarrow> bool" where
  "is_inf PosInf = True"
| "is_inf NegInf = True"
| "is_inf (Fin _) = False"
| "is_inf NegZero = False"
| "is_inf NaN = False"

text \<open>The real value of a finite float.\<close>

fun fin_val :: "npfloat \<Rightarrow> real" where
  "fin_val (Fin r) = r"
| "fin_val NegZero = 0"
| "fin_val PosInf = 0"
| "fin_val NegInf = 0"
| "fin_val NaN = 0"

fun sign_bit :: "npfloat \<Rightarrow> bool" where
  "sign_bit (Fin r) = (r < 0)"
| "sign_bit NegZero = True"
| "sign_bit PosInf = False"
| "sign_bit NegInf = True"
| "sign_bit NaN = False"

definition signed_zero :: "bool \<Rightarrow> npfloat" where
  "signed_zero negative = (if negative then NegZero else Fin 0)"

definition signed_inf :: "bool \<Rightarrow> npfloat" where
  "signed_inf negative = (if negative then NegInf else PosInf)"

fun np_neg :: "npfloat \<Rightarrow> npfloat" where
  "np_neg (Fin r) = (if r = 0 then NegZero else Fin (- r))"
| "np_neg NegZero = Fin 0"
| "np_neg PosInf = NegInf"
| "np_neg NegInf = PosInf"
| "np_neg NaN = NaN"

definition np_add :: "npfloat \<Rightarrow> npfloat \<Rightarrow> npfloat" where
  "np_add x y =
     (if x = NaN \<or> y = NaN then NaN
      else if is_inf x then (if is_inf y \<and> y \<noteq> x then NaN else x)
      else if is_inf y then y
      else if fin_val x + fin_val y = 0 then (if x = NegZero \<and> y = NegZero then NegZero else Fin 0)
      else Fin (fin_val x + fin_val y))"

definition np_sub :: "npfloat \<Rightarrow> npfloat \<Rightarrow> npfloat" where
  "np_sub x y = np_add x (np_neg y)"

definition np_mul :: "npfloat \<Rightarrow> npfloat \<Rightarrow> npfloat" where
  "np_mul x y =
     (if x = NaN \<or> y = NaN then NaN
      else if is_inf x \<or> is_inf y then
        (if (is_fin x \<and> fin_val x = 0) \<or> (is_fin y \<and> fin_val y = 0) then NaN
         else signed_inf (sign_bit x \<noteq> sign_bit y))
      else if fin_val x * fin_val y = 0 then signed_zero (sign_bit x \<noteq> sign_bit y)
      else Fin (fin_val x * fin_val y))"

definition np_div :: "npfloat \<Rightarrow> npfloat \<Rightarrow> npfloat" where
  "np_div x y =
     (if x = NaN \<or> y = NaN then NaN
      else if is_inf x then (if is_inf y then NaN else signed_inf (sign_bit x \<noteq> sign_bit y))
      else if is_inf y then signed_zero (sign_bit x \<noteq> sign_bit y)
      else if fin_val y = 0 then
        (if fin_val x = 0 then NaN else signed_inf (sign_bit x \<noteq> sign_bit y))
      else if fin_val x = 0 then signed_zero (sign_bit x \<noteq> sign_bit y)
      else Fin (fin_val x / fin_val y))"

text \<open>\<^verbatim>\<open>np.log\<close> and \<^verbatim>\<open>np.sqrt\<close> of a Python number.\<close>

definition np_log :: "real \<Rightarrow> npfloat" where
  "np_log x = (if 0 < x then Fin (ln x) else if x = 0 then NegInf else NaN)"

definition np_sqrt :: "real \<Rightarrow> npfloat" where
  "np_sqrt x = (if 0 \<le> x then Fin (sqrt x) else NaN)"

text \<open>\<^verbatim>\<open>x >= c\<close> for a Python number \<open>c\<close>: every comparison with \<^verbatim>\<open>nan\<close> is false.\<close>

fun np_ge :: "npfloat \<Rightarrow> real \<Rightarrow> bool" where
  "np_ge (Fin r) c = (c \<le> r)"
| "np_ge NegZero c = (c \<le> 0)"
| "np_ge PosInf c = True"
| "np_ge NegInf c = False"
| "np_ge NaN c = False"

text \<open>\<^verbatim>\<open>np.maximum(x, c)\<close> for a Python number \<open>c\<close>: it propagates \<^verbatim>\<open>nan\<close>.\<close>

definition np_maximum :: "npfloat \<Rightarrow> real \<Rightarrow> npfloat" where
  "np_maximum x c = (if x = NaN then NaN else if np_ge x c then x else Fin c)"

text \<open>
  A float as the outcome of a computation: a real number when it is finite, \<open>NotReal\<close>
  otherwise.
\<close>

definition to_real :: "npfloat \<Rightarrow> failure + real" where
  "to_real x = (if is_fin x then Inr (fin_val x) else Inl NotReal)"

subsection \<open>Number of steps and the random matrix (cell 8)\<close>

text \<open>\<^verbatim>\<open>int(x)\<close> on a float truncates towards zero.\<close>

definition py_int :: "real \<Rightarrow> int" where
  "py_int x = (if 0 \<le> x then \<lfloor>x\<rfloor> else \<lceil>x\<rceil>)"

text \<open>\<^verbatim>\<open>n_steps = int(T / dt)\<close>: the division raises when \<open>dt\<close> is zero.\<close>

definition n_steps_of :: "real \<Rightarrow> real \<Rightarrow> failure + int" where
  "n_steps_of T dt = (if dt = 0 then Inl ZeroDivisionError else Inr (py_int (T / dt)))"

text \<open>
  \<^verbatim>\<open>np.random.normal(0, 1, (rows, cols))\<close>. The draws are a parameter \<open>gen\<close>, giving the
  sample at each position; a negative dimension raises ValueError.
\<close>

definition np_random_normal :: "(nat \<Rightarrow> nat \<Rightarrow> real) \<Rightarrow> int \<Rightarrow> int \<Rightarrow> failure + real list list" where
  "np_random_normal gen rows cols =
     (if rows < 0 \<or> cols < 0 then Inl ValueError
      else Inr (map (\<lambda>i. map (\<lambda>j. gen i j) [0..<nat cols]) [0..<nat rows]))"

text \<open>\<^verbatim>\<open>np.vstack((random_walks, -random_walks))\<close>.\<close>

definition antithetic_random_walks :: "real list list \<Rightarrow> real list list" where
  "antithetic_random_walks random_walks = random_walks @ map (map uminus) random_walks"

subsection \<open>Price paths (cell 8)\<close>

text \<open>
  \<^verbatim>\<open>np.exp((rf - (sigma**2) / 2) * dt + sigma * (dt**0.5) * antithetic_random_walks)\<close>,
  elementwise. \<^verbatim>\<open>dt**0.5\<close> is the square root for \<open>dt \<ge> 0\<close>; for a negative \<open>dt\<close> Python
  gives a complex number, which \<open>monte_carlo\<close> below reports as \<open>NotReal\<close>.
\<close>

definition step_factor :: "real \<Rightarrow> real \<Rightarrow> real \<Rightarrow> real \<Rightarrow> real" where
  "step_factor rf sigma dt z = exp ((rf - sigma ^ 2 / 2) * dt + sigma * sqrt dt * z)"

definition coeff_multiplicateur :: "real \<Rightarrow> real \<Rightarrow> real \<Rightarrow> real list list \<Rightarrow> real list list" where
  "coeff_multiplicateur rf sigma dt Z = map (map (step_factor rf sigma dt)) Z"

text \<open>\<^verbatim>\<open>np.cumprod\<close> of one row: the running product, kept in an accumulator.\<close>

fun cumprod_from :: "real \<Rightarrow> real list \<Rightarrow> real list" where
  "cumprod_from acc [] = []"
| "cumprod_from acc (x # xs) = (acc * x) # cumprod_from (acc * x) xs"

definition np_cumprod :: "real list \<Rightarrow> real list" where
  "np_cumprod xs = cumprod_from 1 xs"

text \<open>\<^verbatim>\<open>simulated_prices = S0 * np.cumprod(coeff_multiplicateur, axis=1)\<close>.\<close>

definition simulated_prices :: "real \<Rightarrow> real \<Rightarrow> real \<Rightarrow> real \<Rightarrow> real list list \<Rightarrow> real list list" where
  "simulated_prices S0 rf sigma dt Z =
     map (\<lambda>row. map (\<lambda>p. S0 * p) (np_cumprod row)) (coeff_multiplicateur rf sigma dt Z)"

text \<open>
  The per-step recursion the notebook's text and the specification give:
  \<open>S\<^bsub>t+1\<^esub> = S\<^bsub>t\<^esub> * exp ((r - \<sigma>\<^sup>2/2) dt + \<sigma> sqrt dt Z\<^bsub>t\<^esub>)\<close>, started at the initial price, one step
  per draw of the row. This definition follows the specification, not the code.
\<close>

fun gbm_recursion :: "real \<Rightarrow> real \<Rightarrow> real \<Rightarrow> real \<Rightarrow> real list \<Rightarrow> real list" where
  "gbm_recursion rf sigma dt S [] = []"
| "gbm_recursion rf sigma dt S (z # zs) =
     (let S' = S * exp ((rf - sigma ^ 2 / 2) * dt + sigma * sqrt dt * z)
      in S' # gbm_recursion rf sigma dt S' zs)"

subsection \<open>Payoffs and discounting (cell 8)\<close>

text \<open>
  \<^verbatim>\<open>np.mean\<close> of a vector; of an empty one it is \<^verbatim>\<open>nan\<close> (a warning, no exception).
\<close>

definition np_mean :: "real list \<Rightarrow> real option" where
  "np_mean xs = (if xs = [] then None else Some (sum_list xs / real (length xs)))"

text \<open>
  \<^verbatim>\<open>simulated_prices[:, -1]\<close>: the last column. With no column the index is out of range,
  whatever the number of rows; \<open>n_steps\<close> is the second dimension of the array.
\<close>

definition last_column :: "int \<Rightarrow> real list list \<Rightarrow> failure + real list" where
  "last_column n_steps A = (if n_steps = 0 then Inl IndexError else Inr (map last A))"

text \<open>\<^verbatim>\<open>np.mean(simulated_prices, axis=1)\<close>: one mean per row.\<close>

fun row_means :: "real list list \<Rightarrow> failure + real list" where
  "row_means [] = Inr []"
| "row_means (row # rows) =
     (case np_mean row of
        None \<Rightarrow> Inl NotReal
      | Some m \<Rightarrow> (case row_means rows of Inl e \<Rightarrow> Inl e | Inr ms \<Rightarrow> Inr (m # ms)))"

text \<open>
  The \<^verbatim>\<open>if/elif\<close> chain that assigns \<^verbatim>\<open>payoff\<close>. When no branch is taken the
  name is never bound and its first use raises NameError.
\<close>

definition payoff :: "string \<Rightarrow> string \<Rightarrow> real \<Rightarrow> int \<Rightarrow> real list list \<Rightarrow> failure + real list" where
  "payoff option_nature option_type K n_steps prices =
     (if option_nature = ''european'' then
        (if option_type = ''call'' then
           (case last_column n_steps prices of
              Inl e \<Rightarrow> Inl e | Inr col \<Rightarrow> Inr (map (\<lambda>s. max (s - K) 0) col))
         else if option_type = ''put'' then
           (case last_column n_steps prices of
              Inl e \<Rightarrow> Inl e | Inr col \<Rightarrow> Inr (map (\<lambda>s. max (K - s) 0) col))
         else Inl NameError)
      else if option_nature = ''asiatic'' then
        (if option_type = ''call'' then
           (case row_means prices of
              Inl e \<Rightarrow> Inl e | Inr ms \<Rightarrow> Inr (map (\<lambda>m. max (m - K) 0) ms))
         else if option_type = ''put'' then
           (case row_means prices of
              Inl e \<Rightarrow> Inl e | Inr ms \<Rightarrow> Inr (map (\<lambda>m. max (K - m) 0) ms))
         else Inl NameError)
      else Inl NameError)"

text \<open>
  The same \<^verbatim>\<open>if/elif\<close> chain with the floats it computes: the mean of a row without
  entries is \<^verbatim>\<open>nan\<close>, and \<^verbatim>\<open>np.maximum\<close> keeps it. \<open>payoff\<close> above is this vector read
  as real numbers (\<open>NotReal\<close> when an element is not finite).
\<close>

definition np_mean_float :: "real list \<Rightarrow> npfloat" where
  "np_mean_float xs = (case np_mean xs of None \<Rightarrow> NaN | Some m \<Rightarrow> Fin m)"

definition payoff_np :: "string \<Rightarrow> string \<Rightarrow> real \<Rightarrow> int \<Rightarrow> real list list \<Rightarrow> failure + npfloat list" where
  "payoff_np option_nature option_type K n_steps prices =
     (if option_nature = ''european'' then
        (if option_type = ''call'' then
           (case last_column n_steps prices of
              Inl e \<Rightarrow> Inl e
            | Inr col \<Rightarrow> Inr (map (\<lambda>s. np_maximum (np_sub (Fin s) (Fin K)) 0) col))
         else if option_type = ''put'' then
           (case last_column n_steps prices of
              Inl e \<Rightarrow> Inl e
            | Inr col \<Rightarrow> Inr (map (\<lambda>s. np_maximum (np_sub (Fin K) (Fin s)) 0) col))
         else Inl NameError)
      else if option_nature = ''asiatic'' then
        (if option_type = ''call'' then
           Inr (map (\<lambda>row. np_maximum (np_sub (np_mean_float row) (Fin K)) 0) prices)
         else if option_type = ''put'' then
           Inr (map (\<lambda>row. np_maximum (np_sub (Fin K) (np_mean_float row)) 0) prices)
         else Inl NameError)
      else Inl NameError)"

text \<open>
  \<^verbatim>\<open>discount_factor = np.exp(-rf * T)\<close> and
  \<^verbatim>\<open>option_price = discount_factor * np.mean(payoff)\<close>.
\<close>

definition option_price :: "real \<Rightarrow> real \<Rightarrow> real list \<Rightarrow> failure + real" where
  "option_price rf T payoff_vector =
     (let discount_factor = exp (- rf * T)
      in (case np_mean payoff_vector of
            None \<Rightarrow> Inl NotReal
          | Some m \<Rightarrow> Inr (discount_factor * m)))"

subsection \<open>The whole of cells 6 and 8\<close>

text \<open>
  The statements in the order of the notebook. The test \<open>dt < 0\<close> stands where the result of
  \<^verbatim>\<open>dt**0.5\<close> (complex then) reaches the price: after the statements that can still raise.
\<close>

definition monte_carlo :: "inputs \<Rightarrow> (nat \<Rightarrow> nat \<Rightarrow> real) \<Rightarrow> failure + real" where
  "monte_carlo c gen =
     (case input_validation c of
        Inl e \<Rightarrow> Inl e
      | Inr _ \<Rightarrow>
         (let S0 = num (in_S0 c); K = num (in_K c); T = num (in_T c); rf = num (in_rf c);
              sigma = num (in_sigma c); n_simul = num (in_n_simul c); dt = num (in_dt c);
              option_type = str_of (in_option_type c);
              option_nature = str_of (in_option_nature c)
          in (case n_steps_of T dt of
                Inl e \<Rightarrow> Inl e
              | Inr n_steps \<Rightarrow>
                 (case np_random_normal gen (py_int (n_simul / 2)) n_steps of
                    Inl e \<Rightarrow> Inl e
                  | Inr random_walks \<Rightarrow>
                     (let prices = simulated_prices S0 rf sigma dt
                                     (antithetic_random_walks random_walks)
                      in (case payoff option_nature option_type K n_steps prices of
                            Inl e \<Rightarrow> Inl e
                          | Inr payoff_vector \<Rightarrow>
                              (if dt < 0 then Inl NotReal
                               else option_price rf T payoff_vector)))))))"

subsection \<open>The Black-Scholes formula (cell 10)\<close>

text \<open>
  \<^verbatim>\<open>norm.cdf\<close> comes from SciPy and is a parameter \<open>norm_cdf\<close> of the model, given on the
  real numbers; at the infinities SciPy returns the limits 1 and 0, and \<^verbatim>\<open>nan\<close> at
  \<^verbatim>\<open>nan\<close>.
\<close>

fun cdf_float :: "(real \<Rightarrow> real) \<Rightarrow> npfloat \<Rightarrow> npfloat" where
  "cdf_float norm_cdf (Fin r) = Fin (norm_cdf r)"
| "cdf_float norm_cdf NegZero = Fin (norm_cdf 0)"
| "cdf_float norm_cdf PosInf = Fin 1"
| "cdf_float norm_cdf NegInf = Fin 0"
| "cdf_float norm_cdf NaN = NaN"

text \<open>
  The quotient \<^verbatim>\<open>S0 / K\<close> of two Python numbers raises when \<open>K\<close> is zero. The logarithm,
  the square root and the division by \<^verbatim>\<open>sigma * np.sqrt(T)\<close> are NumPy operations: outside
  their real domain they give \<^verbatim>\<open>nan\<close> or an infinity with a warning, and the function goes
  on with these values. The value returned is read as a real number when it is finite.
\<close>

definition black_scholes_option ::
  "(real \<Rightarrow> real) \<Rightarrow> real \<Rightarrow> real \<Rightarrow> real \<Rightarrow> real \<Rightarrow> real \<Rightarrow> string \<Rightarrow> failure + real" where
  "black_scholes_option norm_cdf S0 K T rf sigma option_type =
     (if K = 0 then Inl ZeroDivisionError
      else
        let d1 = np_div (np_add (np_log (S0 / K)) (np_mul (Fin (rf + 0.5 * sigma ^ 2)) (Fin T)))
                   (np_mul (Fin sigma) (np_sqrt T));
            d2 = np_sub d1 (np_mul (Fin sigma) (np_sqrt T))
        in if option_type = ''call'' then
             to_real (np_sub (np_mul (Fin S0) (cdf_float norm_cdf d1))
                        (np_mul (Fin (K * exp (- rf * T))) (cdf_float norm_cdf d2)))
           else if option_type = ''put'' then
             to_real (np_sub (np_mul (Fin (K * exp (- rf * T))) (cdf_float norm_cdf (np_neg d2)))
                        (np_mul (Fin S0) (cdf_float norm_cdf (np_neg d1))))
           else Inl ValueError)"

text \<open>The statements after the function: the formula is applied to European options only.\<close>

definition black_scholes_cell :: "(real \<Rightarrow> real) \<Rightarrow> inputs \<Rightarrow> failure + real" where
  "black_scholes_cell norm_cdf c =
     (if str_of (in_option_nature c) \<noteq> ''european'' then Inl ValueError
      else black_scholes_option norm_cdf (num (in_S0 c)) (num (in_K c)) (num (in_T c))
             (num (in_rf c)) (num (in_sigma c)) (str_of (in_option_type c)))"

text \<open>
  The standard normal distribution function, as its power series around zero; it is the
  function \<^verbatim>\<open>norm.cdf\<close> computes and serves as the concrete \<open>norm_cdf\<close>.
\<close>

definition std_normal_cdf :: "real \<Rightarrow> real" where
  "std_normal_cdf x =
     1 / 2 + (\<Sum>n. (- 1) ^ n * x ^ (2 * n + 1) / (fact n * 2 ^ n * real (2 * n + 1))) / sqrt (2 * pi)"


section \<open>Properties\<close>

subsection \<open>Finite floats\<close>

lemma np_neg_fin: "is_fin x \<Longrightarrow> is_fin (np_neg x) \<and> fin_val (np_neg x) = - fin_val x"
  by (cases x) simp_all

lemma np_add_fin:
  "is_fin x \<Longrightarrow> is_fin y \<Longrightarrow> is_fin (np_add x y) \<and> fin_val (np_add x y) = fin_val x + fin_val y"
  by (cases x; cases y) (simp_all add: np_add_def)

lemma np_sub_fin:
  "is_fin x \<Longrightarrow> is_fin y \<Longrightarrow> is_fin (np_sub x y) \<and> fin_val (np_sub x y) = fin_val x - fin_val y"
  using np_add_fin [of x "np_neg y"] np_neg_fin [of y] by (simp add: np_sub_def)

lemma np_mul_fin:
  "is_fin x \<Longrightarrow> is_fin y \<Longrightarrow> is_fin (np_mul x y) \<and> fin_val (np_mul x y) = fin_val x * fin_val y"
  by (cases x; cases y) (simp_all add: np_mul_def signed_zero_def)

lemma np_div_fin:
  "is_fin x \<Longrightarrow> is_fin y \<Longrightarrow> fin_val y \<noteq> 0 \<Longrightarrow>
     is_fin (np_div x y) \<and> fin_val (np_div x y) = fin_val x / fin_val y"
  by (cases x; cases y) (simp_all add: np_div_def signed_zero_def)

lemma cdf_float_fin:
  "is_fin x \<Longrightarrow> is_fin (cdf_float N x) \<and> fin_val (cdf_float N x) = N (fin_val x)"
  by (cases x) simp_all

lemma to_real_fin: "is_fin x \<Longrightarrow> to_real x = Inr (fin_val x)"
  by (simp add: to_real_def)

lemma to_real_cases: "(\<exists>v. to_real x = Inr v) \<or> to_real x = Inl NotReal"
  by (simp add: to_real_def)

lemma np_maximum_fin:
  "is_fin x \<Longrightarrow> is_fin (np_maximum x c) \<and> fin_val (np_maximum x c) = max (fin_val x) c
     \<and> np_ge (np_maximum x c) c"
  by (cases x) (auto simp: np_maximum_def)

subsection \<open>Shapes\<close>

lemma length_cumprod_from: "length (cumprod_from acc xs) = length xs"
  by (induction xs arbitrary: acc) simp_all

lemma length_simulated_path:
  "map length (simulated_prices S0 rf sigma dt Z) = map length Z"
  by (simp add: simulated_prices_def coeff_multiplicateur_def np_cumprod_def
      length_cumprod_from comp_def)

lemma simulated_path_length:
  assumes "\<forall>row\<in>set Z. length row = k"
  shows "\<forall>path\<in>set (simulated_prices S0 rf sigma dt Z). length path = k"
proof -
  have "set (map length (simulated_prices S0 rf sigma dt Z)) = set (map length Z)"
    by (simp only: length_simulated_path)
  with assms show ?thesis by auto
qed

lemma random_normal_shape:
  "np_random_normal gen rows cols = Inr rw \<Longrightarrow>
     length rw = nat rows \<and> (\<forall>row\<in>set rw. length row = nat cols)"
  by (auto simp: np_random_normal_def split: if_splits)

lemma antithetic_shape:
  "\<forall>row\<in>set rw. length row = k \<Longrightarrow> \<forall>row\<in>set (antithetic_random_walks rw). length row = k"
  by (auto simp: antithetic_random_walks_def)

lemma py_int_half: "0 \<le> n \<Longrightarrow> py_int (real_of_int n / 2) = n div 2"
  by (simp add: py_int_def floor_divide_of_int_eq [of n 2, simplified])

lemma py_int_half_neg: "n \<le> - 2 \<Longrightarrow> py_int (real_of_int n / 2) < 0"
proof -
  assume "n \<le> - 2"
  then have "real_of_int n \<le> - 2" by linarith
  then have x: "real_of_int n / 2 \<le> - 1" by simp
  then have "\<lceil>real_of_int n / 2\<rceil> \<le> - 1" by (simp only: ceiling_le_iff of_int_minus of_int_1)
  moreover from x have "\<not> 0 \<le> real_of_int n / 2" by linarith
  ultimately show ?thesis by (simp only: py_int_def if_False)
qed

lemma py_int_half_small: "- 2 < n \<Longrightarrow> n < 2 \<Longrightarrow> py_int (real_of_int n / 2) = 0"
proof -
  assume "- 2 < n" "n < 2"
  then consider "n = - 1" | "n = 0" | "n = 1" by linarith
  then show ?thesis
  proof cases
    case 1
    have "\<lceil>- (1 / 2) :: real\<rceil> = 0" by (rule ceiling_unique) simp_all
    with 1 show ?thesis by (simp add: py_int_def)
  qed (simp_all add: py_int_def)
qed

subsection \<open>The number of steps\<close>

text \<open>
  C5 as stated fails: the code truncates \<open>T / dt\<close>, it does not round to the nearest
  integer, and the result can be zero. With \<open>T = 3/4\<close> and \<open>dt = 1\<close> the number of steps
  is 0, while the nearest integer to \<open>T / dt\<close> is 1.
\<close>

theorem n_steps_rounds_counterexample:
  "n_steps_of (3 / 4) 1 = Inr 0 \<and> round ((3 / 4) / (1::real)) = 1
   \<and> n_steps_of (3 / 4) 1 \<noteq> Inr (round ((3 / 4) / (1::real)))"
  by (simp add: n_steps_of_def py_int_def round_def)

text \<open>
  C5, amended. For \<open>T > 0\<close> and \<open>dt > 0\<close> the number of steps is \<open>T / dt\<close> truncated to an
  integer (rounded down): it is at least 0, it is at least 1 exactly when \<open>dt \<le> T\<close>, and
  every simulated price path has exactly that many entries.
\<close>

theorem n_steps_truncates:
  assumes T: "0 < T" and dt: "0 < dt"
  shows "n_steps_of T dt = Inr \<lfloor>T / dt\<rfloor>
     \<and> 0 \<le> \<lfloor>T / dt\<rfloor> \<and> (1 \<le> \<lfloor>T / dt\<rfloor> \<longleftrightarrow> dt \<le> T)
     \<and> real_of_int \<lfloor>T / dt\<rfloor> \<le> T / dt \<and> T / dt < real_of_int \<lfloor>T / dt\<rfloor> + 1
     \<and> (\<forall>gen rows rw. np_random_normal gen rows \<lfloor>T / dt\<rfloor> = Inr rw \<longrightarrow>
          (\<forall>path\<in>set (simulated_prices S0 rf sigma dt (antithetic_random_walks rw)).
              length path = nat \<lfloor>T / dt\<rfloor>))"
proof -
  from T dt have q: "0 \<le> T / dt" by simp
  then have a: "n_steps_of T dt = Inr \<lfloor>T / dt\<rfloor>"
    using dt by (simp add: n_steps_of_def py_int_def)
  from q have b: "0 \<le> \<lfloor>T / dt\<rfloor>" by simp
  have c: "1 \<le> \<lfloor>T / dt\<rfloor> \<longleftrightarrow> dt \<le> T"
    using dt by (simp add: le_floor_iff pos_le_divide_eq)
  have d: "real_of_int \<lfloor>T / dt\<rfloor> \<le> T / dt" "T / dt < real_of_int \<lfloor>T / dt\<rfloor> + 1"
    by linarith+
  have e: "\<forall>gen rows rw. np_random_normal gen rows \<lfloor>T / dt\<rfloor> = Inr rw \<longrightarrow>
          (\<forall>path\<in>set (simulated_prices S0 rf sigma dt (antithetic_random_walks rw)).
              length path = nat \<lfloor>T / dt\<rfloor>)"
  proof (intro allI impI)
    fix gen rows rw
    assume "np_random_normal gen rows \<lfloor>T / dt\<rfloor> = Inr rw"
    then have "\<forall>row\<in>set rw. length row = nat \<lfloor>T / dt\<rfloor>"
      by (simp add: random_normal_shape)
    then show "\<forall>path\<in>set (simulated_prices S0 rf sigma dt (antithetic_random_walks rw)).
              length path = nat \<lfloor>T / dt\<rfloor>"
      by (intro simulated_path_length antithetic_shape)
  qed
  from a b c d e show ?thesis by blast
qed

theorem n_steps_truncates_witness:
  "(0::real) < 3 / 2 \<and> (0::real) < 1 / 2
   \<and> n_steps_of (3 / 2) (1 / 2) = Inr 3
   \<and> np_random_normal (\<lambda>i j. real i - real j) 1 3 = Inr [[0, - 1, - 2]]
   \<and> list_all (\<lambda>path. length path = 3)
       (simulated_prices 100 (1 / 50) (1 / 5) (1 / 2) (antithetic_random_walks [[0, - 1, - 2]]))"
proof -
  have fl: "\<lfloor>3 / 2 / (1 / 2) :: real\<rfloor> = 3" by simp
  have up: "[0..<3] = [0, 1, 2]" by (simp add: upt_rec)
  have gen: "np_random_normal (\<lambda>i j. real i - real j) 1 3 = Inr [[0, - 1, - 2]]"
    by (simp add: np_random_normal_def up)
  from n_steps_truncates [of "3 / 2" "1 / 2" 100 "1 / 50" "1 / 5"] gen show ?thesis
    by (simp add: fl list_all_iff)
qed

subsection \<open>Antithetic draws\<close>

text \<open>
  C3. For an even number of simulations \<open>n_simul \<ge> 0\<close> the generated matrix has \<open>n_simul\<close>
  rows of \<open>n_steps\<close> draws each; for every \<open>i < n_simul / 2\<close>, row \<open>i + n_simul / 2\<close> is the
  elementwise negation of row \<open>i\<close>; the first half of the matrix is the matrix of draws and
  the second half its negation.
\<close>

theorem antithetic_pairing:
  assumes ev: "even n_simul" and n0: "0 \<le> n_simul" and s0: "0 \<le> n_steps"
  shows "\<exists>rw. np_random_normal gen (py_int (real_of_int n_simul / 2)) n_steps = Inr rw
     \<and> length (antithetic_random_walks rw) = nat n_simul
     \<and> (\<forall>row\<in>set (antithetic_random_walks rw). length row = nat n_steps)
     \<and> (\<forall>i < nat n_simul div 2.
           antithetic_random_walks rw ! (i + nat n_simul div 2)
             = map uminus (antithetic_random_walks rw ! i))
     \<and> take (nat n_simul div 2) (antithetic_random_walks rw) = rw
     \<and> drop (nat n_simul div 2) (antithetic_random_walks rw) = map (map uminus) rw"
proof -
  define h where "h = nat n_simul div 2"
  define rw where "rw = map (\<lambda>i. map (\<lambda>j. gen i j) [0..<nat n_steps]) [0..<h]"
  have half: "nat (n_simul div 2) = h"
    using n0 by (simp add: h_def nat_div_distrib)
  have gen_eq: "np_random_normal gen (py_int (real_of_int n_simul / 2)) n_steps = Inr rw"
    using n0 s0 by (simp add: np_random_normal_def py_int_half half rw_def pos_imp_zdiv_nonneg_iff)
  have len: "length rw = h" by (simp add: rw_def)
  have total: "length (antithetic_random_walks rw) = nat n_simul"
  proof -
    from ev n0 have "even (nat n_simul)" by (simp add: even_nat_iff)
    then have "2 * (nat n_simul div 2) = nat n_simul" by (rule even_two_times_div_two)
    with len show ?thesis by (simp add: antithetic_random_walks_def h_def)
  qed
  have shape: "\<forall>row\<in>set (antithetic_random_walks rw). length row = nat n_steps"
    by (auto simp: antithetic_random_walks_def rw_def)
  have pair: "\<forall>i < h. antithetic_random_walks rw ! (i + h) = map uminus (antithetic_random_walks rw ! i)"
    using len by (simp add: antithetic_random_walks_def nth_append)
  have halves: "take h (antithetic_random_walks rw) = rw"
    "drop h (antithetic_random_walks rw) = map (map uminus) rw"
    using len by (simp_all add: antithetic_random_walks_def)
  from gen_eq total shape pair halves show ?thesis
    unfolding h_def by blast
qed

theorem antithetic_pairing_witness:
  "even (4::int) \<and> (0::int) \<le> 4 \<and> (0::int) \<le> 2
   \<and> (\<exists>rw. np_random_normal (\<lambda>i j. real i + 2 * real j) (py_int (real_of_int 4 / 2)) 2 = Inr rw
     \<and> length (antithetic_random_walks rw) = nat 4
     \<and> (\<forall>row\<in>set (antithetic_random_walks rw). length row = nat 2)
     \<and> (\<forall>i < nat 4 div 2.
           antithetic_random_walks rw ! (i + nat 4 div 2)
             = map uminus (antithetic_random_walks rw ! i))
     \<and> take (nat 4 div 2) (antithetic_random_walks rw) = rw
     \<and> drop (nat 4 div 2) (antithetic_random_walks rw) = map (map uminus) rw)"
  using antithetic_pairing [of 4 2 "\<lambda>i j. real i + 2 * real j"] by simp

subsection \<open>Price paths\<close>

lemma cumprod_from_gbm:
  "map (\<lambda>p. S0 * p) (cumprod_from acc (map (step_factor rf sigma dt) zs))
     = gbm_recursion rf sigma dt (S0 * acc) zs"
  by (induction zs arbitrary: acc) (simp_all add: step_factor_def Let_def mult.assoc)

text \<open>
  C2. For every matrix \<open>Z\<close> and all parameters, the vectorised construction
  \<open>S0 * cumprod (exp (\<dots>))\<close> along the time axis gives the same price paths as the per-step
  recursion started at \<open>S0\<close>, and each path has one entry per draw of its row (the recursion
  is iterated once per time step). Arithmetic is exact real arithmetic.
\<close>

theorem simulated_prices_eq_gbm_recursion:
  "simulated_prices S0 rf sigma dt Z = map (gbm_recursion rf sigma dt S0) Z
   \<and> map length (simulated_prices S0 rf sigma dt Z) = map length Z"
proof
  show "simulated_prices S0 rf sigma dt Z = map (gbm_recursion rf sigma dt S0) Z"
    using cumprod_from_gbm [of S0 1 rf sigma dt]
    by (simp add: simulated_prices_def coeff_multiplicateur_def np_cumprod_def comp_def)
  show "map length (simulated_prices S0 rf sigma dt Z) = map length Z"
    by (rule length_simulated_path)
qed

lemma cumprod_from_pos:
  "0 < acc \<Longrightarrow> \<forall>x\<in>set xs. 0 < x \<Longrightarrow> \<forall>p\<in>set (cumprod_from acc xs). 0 < p"
proof (induction xs arbitrary: acc)
  case Nil
  then show ?case by simp
next
  case (Cons x xs)
  from Cons.prems have step: "0 < acc * x" by simp
  from Cons.prems have rest: "\<forall>y\<in>set xs. 0 < y" by simp
  from Cons.IH [OF step rest] step show ?case by simp
qed

text \<open>
  C10. With \<open>S0 > 0\<close>, every entry of every simulated price path is strictly positive, for
  every matrix of draws: each step factor is an exponential, so the running product scaled by
  \<open>S0\<close> stays positive.
\<close>

theorem simulated_prices_positive:
  "0 < S0 \<Longrightarrow> \<forall>row\<in>set (simulated_prices S0 rf sigma dt Z). \<forall>p\<in>set row. 0 < p"
proof (intro ballI)
  fix row p
  assume S0: "0 < S0"
    and row: "row \<in> set (simulated_prices S0 rf sigma dt Z)"
    and p: "p \<in> set row"
  from row obtain zs
    where row_def: "row = map (\<lambda>p. S0 * p) (cumprod_from 1 (map (step_factor rf sigma dt) zs))"
    by (auto simp: simulated_prices_def coeff_multiplicateur_def np_cumprod_def)
  have "\<forall>x\<in>set (map (step_factor rf sigma dt) zs). 0 < x"
    by (simp add: step_factor_def)
  then have "\<forall>q\<in>set (cumprod_from 1 (map (step_factor rf sigma dt) zs)). 0 < q"
    by (rule cumprod_from_pos [rotated]) simp
  with p row_def S0 show "0 < p" by auto
qed

theorem simulated_prices_positive_witness:
  "0 < (100::real)
   \<and> list_all (list_all (\<lambda>p. 0 < p))
        (simulated_prices 100 (1 / 50) (1 / 5) (1 / 252) [[1, - 2], [- 1, 2]])"
  using simulated_prices_positive [of 100 "1 / 50" "1 / 5" "1 / 252" "[[1, - 2], [- 1, 2]]"]
  by (simp add: list_all_iff)

subsection \<open>Payoffs\<close>

lemma row_means_nonempty:
  "\<forall>row\<in>set A. row \<noteq> [] \<Longrightarrow> row_means A = Inr (map (\<lambda>row. sum_list row / real (length row)) A)"
  by (induction A) (simp_all add: np_mean_def)

lemma payoff_total:
  assumes "option_nature \<in> {''european'', ''asiatic''}" and "option_type \<in> {''call'', ''put''}"
    and "0 < n" and "\<forall>path\<in>set A. length path = nat n"
  shows "\<exists>w. payoff option_nature option_type K n A = Inr w \<and> length w = length A"
proof -
  from assms have ne: "\<forall>row\<in>set A. row \<noteq> []" by auto
  from assms(1-3) row_means_nonempty [OF ne] show ?thesis
    by (auto simp: payoff_def last_column_def)
qed

text \<open>
  C1. For a price matrix with \<open>n \<ge> 1\<close> time steps, the payoff of each path is: European call
  \<open>max (S_final - K) 0\<close>, European put \<open>max (K - S_final) 0\<close>, Asian call
  \<open>max (mean - K) 0\<close>, Asian put \<open>max (K - mean) 0\<close>, where \<open>S_final\<close> is the last entry of the
  path and \<open>mean\<close> is the sum of the entries at all time steps \<open>t < n\<close> divided by \<open>n\<close>. The
  European payoffs depend on the last column only: two matrices with the same last column
  have the same European payoffs.
\<close>

theorem payoff_formulas:
  assumes n: "0 < n" and shape: "\<forall>path\<in>set A. length path = nat n"
  shows "payoff ''european'' ''call'' K n A = Inr (map (\<lambda>path. max (last path - K) 0) A)
       \<and> payoff ''european'' ''put'' K n A = Inr (map (\<lambda>path. max (K - last path) 0) A)
       \<and> payoff ''asiatic'' ''call'' K n A
           = Inr (map (\<lambda>path. max ((\<Sum>t<nat n. path ! t) / real_of_int n - K) 0) A)
       \<and> payoff ''asiatic'' ''put'' K n A
           = Inr (map (\<lambda>path. max (K - (\<Sum>t<nat n. path ! t) / real_of_int n) 0) A)
       \<and> (\<forall>B option_type. map last B = map last A \<longrightarrow>
             payoff ''european'' option_type K n B = payoff ''european'' option_type K n A)"
proof -
  from n shape have ne: "\<forall>row\<in>set A. row \<noteq> []" by auto
  have mean: "sum_list path / real (length path) = (\<Sum>t<nat n. path ! t) / real_of_int n"
    if "path \<in> set A" for path
  proof -
    from that shape have len: "length path = nat n" by simp
    have "sum_list path = (\<Sum>t<length path. path ! t)"
      by (simp add: sum_list_sum_nth atLeast0LessThan)
    with len n show ?thesis by simp
  qed
  have means: "row_means A = Inr (map (\<lambda>path. (\<Sum>t<nat n. path ! t) / real_of_int n) A)"
    using row_means_nonempty [OF ne] mean by simp
  have e1: "payoff ''european'' ''call'' K n A = Inr (map (\<lambda>path. max (last path - K) 0) A)"
    using n by (simp add: payoff_def last_column_def comp_def)
  have e2: "payoff ''european'' ''put'' K n A = Inr (map (\<lambda>path. max (K - last path) 0) A)"
    using n by (simp add: payoff_def last_column_def comp_def)
  have a1: "payoff ''asiatic'' ''call'' K n A
           = Inr (map (\<lambda>path. max ((\<Sum>t<nat n. path ! t) / real_of_int n - K) 0) A)"
    by (simp add: payoff_def means comp_def)
  have a2: "payoff ''asiatic'' ''put'' K n A
           = Inr (map (\<lambda>path. max (K - (\<Sum>t<nat n. path ! t) / real_of_int n) 0) A)"
    by (simp add: payoff_def means comp_def)
  have only_last: "\<forall>B option_type. map last B = map last A \<longrightarrow>
             payoff ''european'' option_type K n B = payoff ''european'' option_type K n A"
    by (simp add: payoff_def last_column_def)
  from e1 e2 a1 a2 only_last show ?thesis by blast
qed

theorem payoff_formulas_witness:
  "(0::int) < 2 \<and> list_all (\<lambda>path. length path = nat 2) [[100, 120], [100, 70::real]]
   \<and> payoff ''european'' ''call'' 90 2 [[100, 120], [100, 70]] = Inr [30, 0]
   \<and> payoff ''european'' ''put'' 90 2 [[100, 120], [100, 70]] = Inr [0, 20]
   \<and> payoff ''asiatic'' ''call'' 90 2 [[100, 120], [100, 70]] = Inr [20, 0]
   \<and> payoff ''asiatic'' ''put'' 90 2 [[100, 120], [100, 70]] = Inr [0, 5]
   \<and> payoff ''european'' ''call'' 90 2 [[1, 120], [2, 70]]
        = payoff ''european'' ''call'' 90 2 [[100, 120], [100, 70]]"
  using payoff_formulas [of 2 "[[100, 120], [100, 70]]" 90]
  by (simp add: lessThan_nat_numeral lessThan_Suc)

lemma row_means_empty_row: "[] \<in> set A \<Longrightarrow> row_means A = Inl NotReal"
  by (induction A) (auto simp: np_mean_def split: sum.splits)

lemma european_element:
  "is_fin (np_maximum (np_sub (Fin a) (Fin b)) 0)
   \<and> fin_val (np_maximum (np_sub (Fin a) (Fin b)) 0) = max (a - b) 0
   \<and> np_ge (np_maximum (np_sub (Fin a) (Fin b)) 0) 0"
  using np_sub_fin [of "Fin a" "Fin b"] np_maximum_fin [of "np_sub (Fin a) (Fin b)" 0]
  by simp

lemma np_mean_float_nonempty:
  "row \<noteq> [] \<Longrightarrow> np_mean_float row = Fin (sum_list row / real (length row))"
  by (simp add: np_mean_float_def np_mean_def)

lemma asian_element_nan:
  "np_maximum (np_sub (np_mean_float []) (Fin K)) 0 = NaN"
  "np_maximum (np_sub (Fin K) (np_mean_float [])) 0 = NaN"
  by (simp_all add: np_mean_float_def np_mean_def np_sub_def np_add_def np_maximum_def)

lemma payoff_real_view:
  "payoff option_nature option_type K n A =
     (case payoff_np option_nature option_type K n A of
        Inl e \<Rightarrow> Inl e
      | Inr v \<Rightarrow> if list_all is_fin v then Inr (map fin_val v) else Inl NotReal)"
proof (cases "\<forall>row\<in>set A. row \<noteq> []")
  case True
  then have means: "row_means A = Inr (map (\<lambda>row. sum_list row / real (length row)) A)"
    by (rule row_means_nonempty)
  have fl: "np_mean_float row = Fin (sum_list row / real (length row))" if "row \<in> set A" for row
    using that True by (simp add: np_mean_float_nonempty)
  show ?thesis
    unfolding payoff_def payoff_np_def last_column_def means
    by (simp add: list_all_iff european_element fl comp_def cong: map_cong)
next
  case False
  then have e: "[] \<in> set A" by auto
  then have means: "row_means A = Inl NotReal" by (rule row_means_empty_row)
  from e have nf1: "\<not> list_all is_fin (map (\<lambda>row. np_maximum (np_sub (np_mean_float row) (Fin K)) 0) A)"
    and nf2: "\<not> list_all is_fin (map (\<lambda>row. np_maximum (np_sub (Fin K) (np_mean_float row)) 0) A)"
    by (auto simp: list_all_iff asian_element_nan intro!: bexI [of _ "[]"])
  show ?thesis
    unfolding payoff_def payoff_np_def last_column_def means
    using nf1 nf2 by (simp add: list_all_iff european_element comp_def) blast
qed

lemma payoff_np_total:
  assumes nature: "option_nature \<in> {''european'', ''asiatic''}"
    and type: "option_type \<in> {''call'', ''put''}"
    and n: "0 < n" and shape: "\<forall>path\<in>set A. length path = nat n"
  shows "\<exists>w. payoff_np option_nature option_type K n A = Inr w \<and> length w = length A
           \<and> (\<forall>x\<in>set w. is_fin x \<and> np_ge x 0)"
proof -
  from n shape have ne: "\<forall>row\<in>set A. row \<noteq> []" by auto
  have asian: "is_fin (np_maximum (np_sub (np_mean_float row) (Fin K)) 0)
       \<and> np_ge (np_maximum (np_sub (np_mean_float row) (Fin K)) 0) 0
       \<and> is_fin (np_maximum (np_sub (Fin K) (np_mean_float row)) 0)
       \<and> np_ge (np_maximum (np_sub (Fin K) (np_mean_float row)) 0) 0"
    if "row \<in> set A" for row
    using that ne european_element by (simp add: np_mean_float_nonempty)
  from nature type n asian show ?thesis
    unfolding payoff_np_def last_column_def
    by (auto simp: european_element)
qed

text \<open>
  C9 as stated fails: it holds for every price matrix with at least one time step only. With
  \<open>T = 3/4\<close> and \<open>dt = 1\<close> the number of steps is 0, the simulated price matrix has rows
  without entries, and for an Asian call the mean of each row, hence each payoff, is
  \<^verbatim>\<open>nan\<close>, which is not at least 0.
\<close>

theorem asian_payoff_nan_counterexample:
  "n_steps_of (3 / 4) 1 = Inr 0
   \<and> np_random_normal (\<lambda>i j. 0) 1 0 = Inr [[]]
   \<and> simulated_prices 100 (1 / 50) (1 / 5) 1 (antithetic_random_walks [[]]) = [[], []]
   \<and> payoff_np ''asiatic'' ''call'' 90 0 [[], []] = Inr [NaN, NaN]
   \<and> \<not> np_ge NaN 0"
  by (simp add: n_steps_of_def py_int_def np_random_normal_def antithetic_random_walks_def
      simulated_prices_def coeff_multiplicateur_def np_cumprod_def payoff_np_def asian_element_nan)

text \<open>
  C9, amended. For each of the four supported combinations and every simulated price matrix
  with at least one time step (\<open>n \<ge> 1\<close>), a payoff vector is computed, with one element per
  path, and every element is a finite number at least 0.
\<close>

theorem payoff_nonnegative:
  "option_nature \<in> {''european'', ''asiatic''} \<and> option_type \<in> {''call'', ''put''}
     \<and> 0 < n \<and> (\<forall>path\<in>set A. length path = nat n)
   \<longrightarrow> (\<exists>w. payoff_np option_nature option_type K n A = Inr w \<and> length w = length A
            \<and> (\<forall>x\<in>set w. is_fin x \<and> np_ge x 0)
            \<and> payoff option_nature option_type K n A = Inr (map fin_val w)
            \<and> (\<forall>x\<in>set (map fin_val w). 0 \<le> x))"
proof
  assume h: "option_nature \<in> {''european'', ''asiatic''} \<and> option_type \<in> {''call'', ''put''}
     \<and> 0 < n \<and> (\<forall>path\<in>set A. length path = nat n)"
  then obtain w where w: "payoff_np option_nature option_type K n A = Inr w" "length w = length A"
      "\<forall>x\<in>set w. is_fin x \<and> np_ge x 0"
    using payoff_np_total [of option_nature option_type n A K] by blast
  from w(3) have fin: "list_all is_fin w" by (simp add: list_all_iff)
  have real: "payoff option_nature option_type K n A = Inr (map fin_val w)"
    by (simp add: payoff_real_view w(1) fin)
  have "0 \<le> fin_val x" if "x \<in> set w" for x
  proof -
    from that w(3) have "is_fin x" "np_ge x 0" by simp_all
    then show ?thesis by (cases x) simp_all
  qed
  then have nonneg: "\<forall>x\<in>set (map fin_val w). 0 \<le> x" by simp
  from w real nonneg show "\<exists>w. payoff_np option_nature option_type K n A = Inr w \<and> length w = length A
            \<and> (\<forall>x\<in>set w. is_fin x \<and> np_ge x 0)
            \<and> payoff option_nature option_type K n A = Inr (map fin_val w)
            \<and> (\<forall>x\<in>set (map fin_val w). 0 \<le> x)"
    by blast
qed

theorem payoff_nonnegative_witness:
  "''asiatic'' \<in> {''european'', ''asiatic''} \<and> ''put'' \<in> {''call'', ''put''}
   \<and> (0::int) < 2 \<and> list_all (\<lambda>path. length path = nat 2) [[100, 120], [100, 70::real]]
   \<and> payoff_np ''asiatic'' ''put'' 90 2 [[100, 120], [100, 70]] = Inr [Fin 0, Fin 5]
   \<and> list_all (\<lambda>x. is_fin x \<and> np_ge x 0) [Fin 0, Fin 5]
   \<and> payoff ''asiatic'' ''put'' 90 2 [[100, 120], [100, 70]] = Inr [0, 5]
   \<and> (\<exists>w. payoff_np ''asiatic'' ''put'' 90 2 [[100, 120], [100, 70]] = Inr w \<and> length w = 2
          \<and> list_all (\<lambda>x. is_fin x \<and> np_ge x 0) w
          \<and> payoff ''asiatic'' ''put'' 90 2 [[100, 120], [100, 70]] = Inr (map fin_val w))"
proof -
  have np: "payoff_np ''asiatic'' ''put'' 90 2 [[100, 120], [100, 70]] = Inr [Fin 0, Fin 5]"
    by (simp add: payoff_np_def np_mean_float_def np_mean_def np_sub_def np_add_def
        np_maximum_def)
  have re: "payoff ''asiatic'' ''put'' 90 2 [[100, 120], [100, 70]] = Inr [0, 5]"
    by (simp add: payoff_def np_mean_def)
  from payoff_nonnegative [of "''asiatic''" "''put''" 2 "[[100, 120], [100, 70]]" 90] np re
  show ?thesis by (simp add: list_all_iff)
qed

subsection \<open>The whole computation: discounting and the number of simulations\<close>

lemma in_strings_str_of: "in_strings v choices \<Longrightarrow> str_of v \<in> set choices"
  by (cases v) simp_all

lemma input_validation_strings:
  assumes "input_validation c = Inr ()"
  shows "str_of (in_option_type c) \<in> {''call'', ''put''}"
    and "str_of (in_option_nature c) \<in> {''european'', ''asiatic''}"
proof -
  from assms have "in_strings (in_option_type c) [''call'', ''put'']"
    and "in_strings (in_option_nature c) [''european'', ''asiatic'']"
    by (simp_all add: input_validation_def split: if_splits)
  then show "str_of (in_option_type c) \<in> {''call'', ''put''}"
    and "str_of (in_option_nature c) \<in> {''european'', ''asiatic''}"
    using in_strings_str_of by fastforce+
qed

lemma monte_carlo_after_validation:
  assumes "input_validation c = Inr ()" and "num (in_dt c) \<noteq> 0"
  shows "monte_carlo c gen =
     (case np_random_normal gen (py_int (num (in_n_simul c) / 2)) (py_int (num (in_T c) / num (in_dt c))) of
        Inl e \<Rightarrow> Inl e
      | Inr random_walks \<Rightarrow>
          (case payoff (str_of (in_option_nature c)) (str_of (in_option_type c)) (num (in_K c))
                  (py_int (num (in_T c) / num (in_dt c)))
                  (simulated_prices (num (in_S0 c)) (num (in_rf c)) (num (in_sigma c)) (num (in_dt c))
                     (antithetic_random_walks random_walks)) of
             Inl e \<Rightarrow> Inl e
           | Inr payoff_vector \<Rightarrow>
               (if num (in_dt c) < 0 then Inl NotReal
                else option_price (num (in_rf c)) (num (in_T c)) payoff_vector)))"
  using assms by (simp add: monte_carlo_def n_steps_of_def Let_def split: sum.splits)

lemma valid_nb:
  "input_validation (notebook_inputs\<lparr>in_T := a, in_n_simul := PyInt b, in_dt := d\<rparr>) = Inr ()
     \<longleftrightarrow> is_number a \<and> is_number d"
  by (simp add: notebook_inputs_def input_validation_def)

text \<open>
  C4. For every payoff vector (with at least one element) the estimated option price is
  \<open>exp (- rf * T)\<close> times the arithmetic mean of the vector; and whenever the whole
  computation returns a price, it is \<open>exp (- rf * T)\<close> times the arithmetic mean of the
  payoff vector computed from the simulated paths.
\<close>

theorem option_price_discounted_mean:
  "(payoff_vector \<noteq> [] \<longrightarrow>
      option_price rf T payoff_vector
        = Inr (exp (- (rf * T)) * (sum_list payoff_vector / real (length payoff_vector))))
   \<and> (monte_carlo c gen = Inr price \<longrightarrow>
        (\<exists>random_walks pv.
            np_random_normal gen (py_int (num (in_n_simul c) / 2))
              (py_int (num (in_T c) / num (in_dt c))) = Inr random_walks
          \<and> payoff (str_of (in_option_nature c)) (str_of (in_option_type c)) (num (in_K c))
              (py_int (num (in_T c) / num (in_dt c)))
              (simulated_prices (num (in_S0 c)) (num (in_rf c)) (num (in_sigma c)) (num (in_dt c))
                 (antithetic_random_walks random_walks)) = Inr pv
          \<and> pv \<noteq> []
          \<and> price = exp (- (num (in_rf c) * num (in_T c))) * (sum_list pv / real (length pv))))"
proof (intro conjI impI)
  assume "payoff_vector \<noteq> []"
  then show "option_price rf T payoff_vector
        = Inr (exp (- (rf * T)) * (sum_list payoff_vector / real (length payoff_vector)))"
    by (simp add: option_price_def np_mean_def)
next
  assume run: "monte_carlo c gen = Inr price"
  then have valid: "input_validation c = Inr ()"
    by (simp add: monte_carlo_def split: sum.splits)
  from run valid have dt: "num (in_dt c) \<noteq> 0"
    by (auto simp: monte_carlo_def n_steps_of_def Let_def)
  from run show "\<exists>random_walks pv.
            np_random_normal gen (py_int (num (in_n_simul c) / 2))
              (py_int (num (in_T c) / num (in_dt c))) = Inr random_walks
          \<and> payoff (str_of (in_option_nature c)) (str_of (in_option_type c)) (num (in_K c))
              (py_int (num (in_T c) / num (in_dt c)))
              (simulated_prices (num (in_S0 c)) (num (in_rf c)) (num (in_sigma c)) (num (in_dt c))
                 (antithetic_random_walks random_walks)) = Inr pv
          \<and> pv \<noteq> []
          \<and> price = exp (- (num (in_rf c) * num (in_T c))) * (sum_list pv / real (length pv))"
    unfolding monte_carlo_after_validation [OF valid dt]
    by (auto simp: option_price_def np_mean_def split: sum.splits if_splits)
qed

theorem option_price_discounted_mean_witness:
  "[30, 0, 12 :: real] \<noteq> []
   \<and> option_price (1 / 50) (1 / 2) [30, 0, 12] = Inr (exp (- (1 / 50 * (1 / 2))) * 14)
   \<and> monte_carlo (notebook_inputs\<lparr>in_T := PyInt 1, in_n_simul := PyInt 2, in_dt := PyInt 1\<rparr>)
        (\<lambda>i j. 0) = Inr (exp (- (1 / 50)) * 10)
   \<and> (\<exists>random_walks pv.
         np_random_normal (\<lambda>i j. 0) (py_int (num (PyInt 2) / 2)) (py_int (num (PyInt 1) / num (PyInt 1)))
           = Inr random_walks
       \<and> payoff ''european'' ''call'' (num (PyInt 90)) (py_int (num (PyInt 1) / num (PyInt 1)))
           (simulated_prices (num (PyInt 100)) (num (PyFloat (1 / 50))) (num (PyFloat (1 / 5)))
              (num (PyInt 1)) (antithetic_random_walks random_walks)) = Inr pv
       \<and> pv \<noteq> []
       \<and> exp (- (1 / 50)) * 10
           = exp (- (num (PyFloat (1 / 50)) * num (PyInt 1))) * (sum_list pv / real (length pv)))"
proof -
  have run: "monte_carlo (notebook_inputs\<lparr>in_T := PyInt 1, in_n_simul := PyInt 2, in_dt := PyInt 1\<rparr>)
        (\<lambda>i j. 0) = Inr (exp (- (1 / 50)) * 10)"
    by (simp add: monte_carlo_def notebook_inputs_def input_validation_def n_steps_of_def
      py_int_def np_random_normal_def antithetic_random_walks_def simulated_prices_def
      coeff_multiplicateur_def step_factor_def np_cumprod_def payoff_def last_column_def
      option_price_def np_mean_def power2_eq_square)
  from option_price_discounted_mean [of "[30, 0, 12]" "1 / 50" "1 / 2"
      "notebook_inputs\<lparr>in_T := PyInt 1, in_n_simul := PyInt 2, in_dt := PyInt 1\<rparr>"
      "\<lambda>i j. 0" "exp (- (1 / 50)) * 10"] run
  show ?thesis by (simp add: notebook_inputs_def)
qed

text \<open>
  C6 as stated fails: with the notebook's inputs, one time step and \<open>n_simul = 3\<close> (odd), the
  computation is not rejected. It draws \<open>int (3 / 2) = 1\<close> row, adds its negation and returns
  a price (here for draws that are all zero; the amended statement below holds for all draws).
\<close>

theorem odd_n_simul_counterexample:
  "monte_carlo (notebook_inputs\<lparr>in_T := PyInt 1, in_n_simul := PyInt 3, in_dt := PyInt 1\<rparr>)
     (\<lambda>i j. 0) = Inr (exp (- (1 / 50)) * 10)"
proof -
  have half: "py_int (3 / 2) = 1"
    by (simp add: py_int_def)
  show ?thesis
    by (simp add: monte_carlo_def notebook_inputs_def input_validation_def n_steps_of_def
      half py_int_def [of 1] np_random_normal_def antithetic_random_walks_def simulated_prices_def
      coeff_multiplicateur_def step_factor_def np_cumprod_def payoff_def last_column_def
      option_price_def np_mean_def power2_eq_square)
qed

text \<open>
  C6, amended. The only check on \<open>n_simul\<close> before the simulation is its type: a value that
  is not an integer fails the assertion. For validated inputs with \<open>0 < dt \<le> T\<close> and an
  integer \<open>n_simul = n\<close>: if \<open>n \<ge> 2\<close>, odd or even, the computation runs on
  \<open>2 * (n div 2)\<close> paths (an odd count is rounded down to the even one below) and returns a
  price; if \<open>n \<le> -2\<close> the request for the random matrix raises ValueError; if
  \<open>-2 < n < 2\<close> nothing is raised, the payoff vector is empty and the price is not a number.
\<close>

theorem n_simul_handling:
  "(\<not> is_int (in_n_simul c) \<longrightarrow> monte_carlo c gen = Inl AssertionError)
   \<and> (input_validation c = Inr () \<and> in_n_simul c = PyInt n
        \<and> 0 < num (in_dt c) \<and> num (in_dt c) \<le> num (in_T c) \<longrightarrow>
        (2 \<le> n \<longrightarrow>
           (\<exists>rw pv p.
              np_random_normal gen (py_int (num (in_n_simul c) / 2))
                 (py_int (num (in_T c) / num (in_dt c))) = Inr rw
            \<and> length (antithetic_random_walks rw) = 2 * nat (n div 2)
            \<and> payoff (str_of (in_option_nature c)) (str_of (in_option_type c)) (num (in_K c))
                  (py_int (num (in_T c) / num (in_dt c)))
                  (simulated_prices (num (in_S0 c)) (num (in_rf c)) (num (in_sigma c)) (num (in_dt c))
                     (antithetic_random_walks rw)) = Inr pv
            \<and> length pv = 2 * nat (n div 2)
            \<and> monte_carlo c gen = Inr p))
      \<and> (n \<le> - 2 \<longrightarrow> monte_carlo c gen = Inl ValueError)
      \<and> (- 2 < n \<and> n < 2 \<longrightarrow> monte_carlo c gen = Inl NotReal))"
proof (intro conjI impI)
  assume "\<not> is_int (in_n_simul c)"
  then show "monte_carlo c gen = Inl AssertionError"
    by (simp add: monte_carlo_def input_validation_def)
next
  assume h: "input_validation c = Inr () \<and> in_n_simul c = PyInt n
        \<and> 0 < num (in_dt c) \<and> num (in_dt c) \<le> num (in_T c)"
  assume "n \<le> - 2"
  with h have "np_random_normal gen (py_int (num (in_n_simul c) / 2))
                 (py_int (num (in_T c) / num (in_dt c))) = Inl ValueError"
    by (simp add: np_random_normal_def py_int_half_neg)
  with h show "monte_carlo c gen = Inl ValueError"
    by (simp add: monte_carlo_after_validation)
next
  assume h: "input_validation c = Inr () \<and> in_n_simul c = PyInt n
        \<and> 0 < num (in_dt c) \<and> num (in_dt c) \<le> num (in_T c)"
  define T dt k where "T = num (in_T c)" and "dt = num (in_dt c)" and "k = py_int (T / dt)"
  from h have dt: "0 < dt" and T: "dt \<le> T" by (simp_all add: dt_def T_def)
  then have k: "0 < k"
    by (simp add: k_def py_int_def less_floor_iff[of 0, simplified] floor_less_iff pos_le_divide_eq
        flip: zle_add1_eq_le[of 0 "\<lfloor>T / dt\<rfloor>", simplified])
  assume small: "- 2 < n \<and> n < 2"
  with h have rn: "np_random_normal gen (py_int (num (in_n_simul c) / 2)) k = Inr []"
    using k by (simp add: np_random_normal_def py_int_half_small)
  have str: "str_of (in_option_type c) \<in> {''call'', ''put''}"
    "str_of (in_option_nature c) \<in> {''european'', ''asiatic''}"
    using h input_validation_strings by blast+
  have pay: "payoff (str_of (in_option_nature c)) (str_of (in_option_type c)) (num (in_K c)) k
       (simulated_prices (num (in_S0 c)) (num (in_rf c)) (num (in_sigma c)) dt
          (antithetic_random_walks [])) = Inr []"
    using payoff_total [OF str(2) str(1) k, of "[]" "num (in_K c)"]
    by (simp add: simulated_prices_def coeff_multiplicateur_def antithetic_random_walks_def)
  from h rn pay dt show "monte_carlo c gen = Inl NotReal"
    by (simp add: monte_carlo_after_validation option_price_def np_mean_def
        flip: T_def dt_def k_def)
next
  assume h: "input_validation c = Inr () \<and> in_n_simul c = PyInt n
        \<and> 0 < num (in_dt c) \<and> num (in_dt c) \<le> num (in_T c)"
  assume n: "2 \<le> n"
  define T dt k where "T = num (in_T c)" and "dt = num (in_dt c)" and "k = py_int (T / dt)"
  from h have dt: "0 < dt" and T: "dt \<le> T" by (simp_all add: dt_def T_def)
  then have k: "0 < k"
    by (simp add: k_def py_int_def less_floor_iff[of 0, simplified] floor_less_iff pos_le_divide_eq
        flip: zle_add1_eq_le[of 0 "\<lfloor>T / dt\<rfloor>", simplified])
  define rw where "rw = map (\<lambda>i. map (\<lambda>j. gen i j) [0..<nat k]) [0..<nat (n div 2)]"
  from n have half: "py_int (real_of_int n / 2) = n div 2" "0 < n div 2"
    by (simp_all add: py_int_half pos_imp_zdiv_pos_iff)
  with h k have rn: "np_random_normal gen (py_int (num (in_n_simul c) / 2)) k = Inr rw"
    by (simp add: np_random_normal_def rw_def)
  have len: "length (antithetic_random_walks rw) = 2 * nat (n div 2)"
    by (simp add: antithetic_random_walks_def rw_def)
  have shape: "\<forall>row\<in>set rw. length row = nat k" by (auto simp: rw_def)
  define prices where "prices = simulated_prices (num (in_S0 c)) (num (in_rf c))
      (num (in_sigma c)) dt (antithetic_random_walks rw)"
  have pshape: "\<forall>path\<in>set prices. length path = nat k"
    unfolding prices_def by (intro simulated_path_length antithetic_shape shape)
  have plen: "length prices = 2 * nat (n div 2)"
    using len by (simp add: prices_def simulated_prices_def coeff_multiplicateur_def)
  have str: "str_of (in_option_type c) \<in> {''call'', ''put''}"
    "str_of (in_option_nature c) \<in> {''european'', ''asiatic''}"
    using h input_validation_strings by blast+
  from payoff_total [OF str(2) str(1) k pshape, of "num (in_K c)"] plen
  obtain pv where pv: "payoff (str_of (in_option_nature c)) (str_of (in_option_type c))
      (num (in_K c)) k prices = Inr pv" "length pv = 2 * nat (n div 2)"
    by auto
  from pv(2) half(2) have "pv \<noteq> []" by auto
  then obtain p where p: "option_price (num (in_rf c)) T pv = Inr p"
    by (simp add: option_price_def np_mean_def)
  from h rn pv p dt have "monte_carlo c gen = Inr p"
    by (simp add: monte_carlo_after_validation flip: T_def dt_def k_def prices_def)
  with rn len pv show "\<exists>rw pv p.
              np_random_normal gen (py_int (num (in_n_simul c) / 2))
                 (py_int (num (in_T c) / num (in_dt c))) = Inr rw
            \<and> length (antithetic_random_walks rw) = 2 * nat (n div 2)
            \<and> payoff (str_of (in_option_nature c)) (str_of (in_option_type c)) (num (in_K c))
                  (py_int (num (in_T c) / num (in_dt c)))
                  (simulated_prices (num (in_S0 c)) (num (in_rf c)) (num (in_sigma c)) (num (in_dt c))
                     (antithetic_random_walks rw)) = Inr pv
            \<and> length pv = 2 * nat (n div 2)
            \<and> monte_carlo c gen = Inr p"
    unfolding prices_def k_def T_def dt_def by blast
qed

theorem n_simul_handling_witness:
  "\<not> is_int (PyFloat 3)
   \<and> monte_carlo (notebook_inputs\<lparr>in_n_simul := PyFloat 3\<rparr>) (\<lambda>i j. 0) = Inl AssertionError
   \<and> input_validation (notebook_inputs\<lparr>in_T := PyInt 1, in_n_simul := PyInt 3, in_dt := PyInt 1\<rparr>) = Inr ()
   \<and> (0::real) < num (PyInt 1) \<and> num (PyInt 1) \<le> num (PyInt 1) \<and> (2::int) \<le> 3
   \<and> (\<exists>rw pv p.
         np_random_normal (\<lambda>i j. 0) (py_int (num (PyInt 3) / 2)) (py_int (num (PyInt 1) / num (PyInt 1))) = Inr rw
       \<and> length (antithetic_random_walks rw) = 2 * nat (3 div 2)
       \<and> payoff ''european'' ''call'' (num (PyInt 90)) (py_int (num (PyInt 1) / num (PyInt 1)))
           (simulated_prices (num (PyInt 100)) (num (PyFloat (1 / 50))) (num (PyFloat (1 / 5)))
              (num (PyInt 1)) (antithetic_random_walks rw)) = Inr pv
       \<and> length pv = 2 * nat (3 div 2)
       \<and> monte_carlo (notebook_inputs\<lparr>in_T := PyInt 1, in_n_simul := PyInt 3, in_dt := PyInt 1\<rparr>)
            (\<lambda>i j. 0) = Inr p)
   \<and> monte_carlo (notebook_inputs\<lparr>in_T := PyInt 1, in_n_simul := PyInt (- 4), in_dt := PyInt 1\<rparr>)
        (\<lambda>i j. 0) = Inl ValueError
   \<and> monte_carlo (notebook_inputs\<lparr>in_T := PyInt 1, in_n_simul := PyInt 1, in_dt := PyInt 1\<rparr>)
        (\<lambda>i j. 0) = Inl NotReal"
  using n_simul_handling [of "notebook_inputs\<lparr>in_n_simul := PyFloat 3\<rparr>" "\<lambda>i j. 0"]
    n_simul_handling [of "notebook_inputs\<lparr>in_T := PyInt 1, in_n_simul := PyInt 3, in_dt := PyInt 1\<rparr>" "\<lambda>i j. 0" 3]
    n_simul_handling [of "notebook_inputs\<lparr>in_T := PyInt 1, in_n_simul := PyInt (- 4), in_dt := PyInt 1\<rparr>" "\<lambda>i j. 0" "- 4"]
    n_simul_handling [of "notebook_inputs\<lparr>in_T := PyInt 1, in_n_simul := PyInt 1, in_dt := PyInt 1\<rparr>" "\<lambda>i j. 0" 1]
  by (simp add: valid_nb) (simp add: notebook_inputs_def)

subsection \<open>The Black-Scholes formula\<close>

lemma black_scholes_finite:
  assumes K: "K \<noteq> 0" and q: "0 < S0 / K" and T: "0 < T" and sigma: "sigma \<noteq> 0"
  shows "black_scholes_option norm_cdf S0 K T rf sigma ''call''
        = Inr (S0 * norm_cdf ((ln (S0 / K) + (rf + 0.5 * sigma ^ 2) * T) / (sigma * sqrt T))
               - K * exp (- rf * T)
                 * norm_cdf ((ln (S0 / K) + (rf + 0.5 * sigma ^ 2) * T) / (sigma * sqrt T)
                             - sigma * sqrt T))"
    and "black_scholes_option norm_cdf S0 K T rf sigma ''put''
        = Inr (K * exp (- rf * T)
                 * norm_cdf (- ((ln (S0 / K) + (rf + 0.5 * sigma ^ 2) * T) / (sigma * sqrt T)
                                - sigma * sqrt T))
               - S0 * norm_cdf (- ((ln (S0 / K) + (rf + 0.5 * sigma ^ 2) * T) / (sigma * sqrt T))))"
proof -
  define den where "den = np_mul (Fin sigma) (np_sqrt T)"
  define nm where "nm = np_add (np_log (S0 / K)) (np_mul (Fin (rf + 0.5 * sigma ^ 2)) (Fin T))"
  define d1 where "d1 = np_div nm den"
  define d2 where "d2 = np_sub d1 den"
  from T sigma have den: "is_fin den" "fin_val den = sigma * sqrt T"
    using np_mul_fin [of "Fin sigma" "Fin (sqrt T)"] by (simp_all add: den_def np_sqrt_def)
  from T sigma have den0: "fin_val den \<noteq> 0" by (simp add: den)
  have nm: "is_fin nm" "fin_val nm = ln (S0 / K) + (rf + 0.5 * sigma ^ 2) * T"
    using q np_mul_fin [of "Fin (rf + 0.5 * sigma ^ 2)" "Fin T"]
      np_add_fin [of "Fin (ln (S0 / K))" "np_mul (Fin (rf + 0.5 * sigma ^ 2)) (Fin T)"]
    by (simp_all add: np_log_def nm_def)
  have d1: "is_fin d1" "fin_val d1 = (ln (S0 / K) + (rf + 0.5 * sigma ^ 2) * T) / (sigma * sqrt T)"
    using np_div_fin [OF nm(1) den(1) den0] by (simp_all add: d1_def nm(2) den(2))
  have d2: "is_fin d2" "fin_val d2 = fin_val d1 - sigma * sqrt T"
    using np_sub_fin [OF d1(1) den(1)] by (simp_all add: d2_def den(2))
  have c1: "is_fin (cdf_float norm_cdf d1)" "fin_val (cdf_float norm_cdf d1) = norm_cdf (fin_val d1)"
    and c2: "is_fin (cdf_float norm_cdf d2)" "fin_val (cdf_float norm_cdf d2) = norm_cdf (fin_val d2)"
    using cdf_float_fin d1(1) d2(1) by simp_all
  have n1: "is_fin (cdf_float norm_cdf (np_neg d1))"
      "fin_val (cdf_float norm_cdf (np_neg d1)) = norm_cdf (- fin_val d1)"
    and n2: "is_fin (cdf_float norm_cdf (np_neg d2))"
      "fin_val (cdf_float norm_cdf (np_neg d2)) = norm_cdf (- fin_val d2)"
    using cdf_float_fin [of "np_neg d1" norm_cdf] cdf_float_fin [of "np_neg d2" norm_cdf]
      np_neg_fin [OF d1(1)] np_neg_fin [OF d2(1)] by simp_all
  have call: "to_real (np_sub (np_mul (Fin S0) (cdf_float norm_cdf d1))
                        (np_mul (Fin (K * exp (- rf * T))) (cdf_float norm_cdf d2)))
      = Inr (S0 * norm_cdf (fin_val d1) - K * exp (- rf * T) * norm_cdf (fin_val d2))"
    using np_mul_fin [of "Fin S0" "cdf_float norm_cdf d1"]
      np_mul_fin [of "Fin (K * exp (- rf * T))" "cdf_float norm_cdf d2"]
      np_sub_fin [of "np_mul (Fin S0) (cdf_float norm_cdf d1)"
        "np_mul (Fin (K * exp (- rf * T))) (cdf_float norm_cdf d2)"]
      c1 c2 by (simp add: to_real_fin)
  have put: "to_real (np_sub (np_mul (Fin (K * exp (- rf * T))) (cdf_float norm_cdf (np_neg d2)))
                        (np_mul (Fin S0) (cdf_float norm_cdf (np_neg d1))))
      = Inr (K * exp (- rf * T) * norm_cdf (- fin_val d2) - S0 * norm_cdf (- fin_val d1))"
    using np_mul_fin [of "Fin S0" "cdf_float norm_cdf (np_neg d1)"]
      np_mul_fin [of "Fin (K * exp (- rf * T))" "cdf_float norm_cdf (np_neg d2)"]
      np_sub_fin [of "np_mul (Fin (K * exp (- rf * T))) (cdf_float norm_cdf (np_neg d2))"
        "np_mul (Fin S0) (cdf_float norm_cdf (np_neg d1))"]
      n1 n2 by (simp add: to_real_fin)
  show "black_scholes_option norm_cdf S0 K T rf sigma ''call''
        = Inr (S0 * norm_cdf ((ln (S0 / K) + (rf + 0.5 * sigma ^ 2) * T) / (sigma * sqrt T))
               - K * exp (- rf * T)
                 * norm_cdf ((ln (S0 / K) + (rf + 0.5 * sigma ^ 2) * T) / (sigma * sqrt T)
                             - sigma * sqrt T))"
    using K call unfolding black_scholes_option_def Let_def nm_def [symmetric] den_def [symmetric]
      d1_def [symmetric] d2_def [symmetric]
    by (simp add: d1(2) d2(2))
  show "black_scholes_option norm_cdf S0 K T rf sigma ''put''
        = Inr (K * exp (- rf * T)
                 * norm_cdf (- ((ln (S0 / K) + (rf + 0.5 * sigma ^ 2) * T) / (sigma * sqrt T)
                                - sigma * sqrt T))
               - S0 * norm_cdf (- ((ln (S0 / K) + (rf + 0.5 * sigma ^ 2) * T) / (sigma * sqrt T))))"
    using K put unfolding black_scholes_option_def Let_def nm_def [symmetric] den_def [symmetric]
      d1_def [symmetric] d2_def [symmetric]
    by (simp add: d1(2) d2(2))
qed

lemma black_scholes_no_exception:
  assumes "K \<noteq> 0" and "option_type \<in> {''call'', ''put''}"
  shows "(\<exists>v. black_scholes_option norm_cdf S0 K T rf sigma option_type = Inr v)
       \<or> black_scholes_option norm_cdf S0 K T rf sigma option_type = Inl NotReal"
  using assms to_real_cases by (auto simp: black_scholes_option_def Let_def)

lemma black_scholes_zero_denominator:
  assumes K: "K \<noteq> 0" and q: "0 < S0 / K" and sigma: "0 \<le> sigma" and T: "0 \<le> T"
    and zero: "sigma * sqrt T = 0"
    and pos: "0 < ln (S0 / K) + (rf + 0.5 * sigma ^ 2) * T"
  shows "black_scholes_option norm_cdf S0 K T rf sigma ''call'' = Inr (S0 - K * exp (- rf * T))"
    and "black_scholes_option norm_cdf S0 K T rf sigma ''put'' = Inr 0"
proof -
  define den where "den = np_mul (Fin sigma) (np_sqrt T)"
  define nm where "nm = np_add (np_log (S0 / K)) (np_mul (Fin (rf + 0.5 * sigma ^ 2)) (Fin T))"
  define d1 where "d1 = np_div nm den"
  define d2 where "d2 = np_sub d1 den"
  from sigma T zero have den: "den = Fin 0"
    by (simp add: den_def np_sqrt_def np_mul_def signed_zero_def not_less)
  have "is_fin nm \<and> fin_val nm = ln (S0 / K) + (rf + 0.5 * sigma ^ 2) * T"
    using q np_mul_fin [of "Fin (rf + 0.5 * sigma ^ 2)" "Fin T"]
      np_add_fin [of "Fin (ln (S0 / K))" "np_mul (Fin (rf + 0.5 * sigma ^ 2)) (Fin T)"]
    by (simp add: np_log_def nm_def)
  with pos have nm: "is_fin nm" "0 < fin_val nm" by simp_all
  then have d1: "d1 = PosInf"
    by (cases nm) (simp_all add: d1_def den np_div_def signed_inf_def)
  then have d2: "d2 = PosInf"
    by (simp add: d2_def den np_sub_def np_add_def)
  have call: "to_real (np_sub (np_mul (Fin S0) (Fin 1)) (np_mul (Fin (K * exp (- rf * T))) (Fin 1)))
      = Inr (S0 - K * exp (- rf * T))"
    using np_mul_fin [of "Fin S0" "Fin 1"] np_mul_fin [of "Fin (K * exp (- rf * T))" "Fin 1"]
      np_sub_fin [of "np_mul (Fin S0) (Fin 1)" "np_mul (Fin (K * exp (- rf * T))) (Fin 1)"]
    by (simp add: to_real_fin)
  have put: "to_real (np_sub (np_mul (Fin (K * exp (- rf * T))) (Fin 0)) (np_mul (Fin S0) (Fin 0)))
      = Inr 0"
    using np_mul_fin [of "Fin S0" "Fin 0"] np_mul_fin [of "Fin (K * exp (- rf * T))" "Fin 0"]
      np_sub_fin [of "np_mul (Fin (K * exp (- rf * T))) (Fin 0)" "np_mul (Fin S0) (Fin 0)"]
    by (simp add: to_real_fin)
  show "black_scholes_option norm_cdf S0 K T rf sigma ''call'' = Inr (S0 - K * exp (- rf * T))"
    using K call unfolding black_scholes_option_def Let_def nm_def [symmetric] den_def [symmetric]
      d1_def [symmetric] d2_def [symmetric]
    by (simp add: d1 d2)
  show "black_scholes_option norm_cdf S0 K T rf sigma ''put'' = Inr 0"
    using K put unfolding black_scholes_option_def Let_def nm_def [symmetric] den_def [symmetric]
      d1_def [symmetric] d2_def [symmetric]
    by (simp add: d1 d2)
qed

lemma black_scholes_negative_T:
  assumes "K \<noteq> 0" and "T < 0" and "option_type \<in> {''call'', ''put''}"
  shows "black_scholes_option norm_cdf S0 K T rf sigma option_type = Inl NotReal"
  using assms
  by (auto simp: black_scholes_option_def Let_def np_sqrt_def np_mul_def np_div_def np_sub_def
      np_add_def to_real_def)

lemma cdf_series_summable:
  "summable (\<lambda>n. (- 1) ^ n * x ^ (2 * n + 1) / (fact n * 2 ^ n * real (2 * n + 1)))"
proof (rule summable_comparison_test)
  show "summable (\<lambda>n. \<bar>x\<bar> * (inverse (fact n) * (x\<^sup>2 / 2) ^ n))"
    by (intro summable_mult summable_exp)
  show "\<exists>N. \<forall>n\<ge>N. norm ((- 1) ^ n * x ^ (2 * n + 1) / (fact n * 2 ^ n * real (2 * n + 1)))
          \<le> \<bar>x\<bar> * (inverse (fact n) * (x\<^sup>2 / 2) ^ n)"
  proof (intro exI allI impI)
    fix n :: nat
    have pw: "\<bar>x\<bar> ^ (2 * n + 1) = \<bar>x\<bar> * (x\<^sup>2) ^ n"
      by (simp add: power_mult [symmetric] power_even_abs)
    have "norm ((- 1) ^ n * x ^ (2 * n + 1) / (fact n * 2 ^ n * real (2 * n + 1)))
            = \<bar>x\<bar> ^ (2 * n + 1) / (fact n * 2 ^ n * real (2 * n + 1))"
      by (simp add: abs_mult power_abs del: power_Suc)
    also have "\<dots> = \<bar>x\<bar> * (x\<^sup>2) ^ n / (fact n * 2 ^ n * real (2 * n + 1))"
      by (simp only: pw)
    also have "\<dots> = \<bar>x\<bar> * (inverse (fact n) * (x\<^sup>2 / 2) ^ n) / real (2 * n + 1)"
      by (simp add: divide_simps)
    also have "\<dots> \<le> \<bar>x\<bar> * (inverse (fact n) * (x\<^sup>2 / 2) ^ n) / 1"
      by (intro divide_left_mono mult_nonneg_nonneg) simp_all
    finally show "norm ((- 1) ^ n * x ^ (2 * n + 1) / (fact n * 2 ^ n * real (2 * n + 1)))
          \<le> \<bar>x\<bar> * (inverse (fact n) * (x\<^sup>2 / 2) ^ n)" by simp
  qed
qed

lemma std_normal_cdf_symmetric: "std_normal_cdf (- x) = 1 - std_normal_cdf x"
proof -
  have "(\<Sum>n. (- 1) ^ n * (- x) ^ (2 * n + 1) / (fact n * 2 ^ n * real (2 * n + 1)))
          = (\<Sum>n. - ((- 1) ^ n * x ^ (2 * n + 1) / (fact n * 2 ^ n * real (2 * n + 1))))"
    by (rule arg_cong [where f = suminf]) (simp add: fun_eq_iff)
  also have "\<dots> = - (\<Sum>n. (- 1) ^ n * x ^ (2 * n + 1) / (fact n * 2 ^ n * real (2 * n + 1)))"
    by (rule suminf_minus [OF cdf_series_summable])
  finally show ?thesis
    by (simp add: std_normal_cdf_def)
qed

text \<open>
  C7 as stated fails: the function checks neither \<open>sigma\<close> nor \<open>T\<close>. With \<open>sigma = -1/5\<close>
  and the notebook's other inputs it raises nothing and returns a number.
\<close>

theorem black_scholes_negative_sigma_counterexample:
  "\<not> isl (black_scholes_option std_normal_cdf 100 90 (1 / 2) (1 / 50) (- (1 / 5)) ''call'')"
  using black_scholes_finite(1) [where K = 90 and ?S0.0 = 100 and T = "1 / 2" and sigma = "- (1 / 5)"
      and norm_cdf = std_normal_cdf and rf = "1 / 50"]
  by simp

text \<open>
  C7, amended. The function does not validate \<open>sigma\<close> or \<open>T\<close>: whatever their values, for
  \<open>K \<noteq> 0\<close> and a type among call and put it raises no error and returns a float. With
  \<open>sigma < 0\<close>, \<open>T > 0\<close> and \<open>S0 / K > 0\<close> the float is the value of the closed formula. With
  \<open>sigma \<ge> 0\<close>, \<open>T \<ge> 0\<close> and \<open>sigma * sqrt T = 0\<close> the code does divide by zero in \<open>d1\<close>:
  when the numerator of \<open>d1\<close> is positive, \<open>d1\<close> and \<open>d2\<close> are plus infinity, the call is
  \<open>S0 - K * exp (- rf * T)\<close> and the put is 0. With \<open>T < 0\<close> the square root is
  \<^verbatim>\<open>nan\<close> and so is the result.
\<close>

theorem black_scholes_no_validation:
  "(K \<noteq> 0 \<and> option_type \<in> {''call'', ''put''} \<longrightarrow>
      (\<exists>v. black_scholes_option norm_cdf S0 K T rf sigma option_type = Inr v)
      \<or> black_scholes_option norm_cdf S0 K T rf sigma option_type = Inl NotReal)
   \<and> (sigma < 0 \<and> 0 < T \<and> 0 < S0 / K \<longrightarrow>
      black_scholes_option norm_cdf S0 K T rf sigma ''call''
        = Inr (S0 * norm_cdf ((ln (S0 / K) + (rf + 0.5 * sigma ^ 2) * T) / (sigma * sqrt T))
               - K * exp (- rf * T)
                 * norm_cdf ((ln (S0 / K) + (rf + 0.5 * sigma ^ 2) * T) / (sigma * sqrt T)
                             - sigma * sqrt T))
    \<and> black_scholes_option norm_cdf S0 K T rf sigma ''put''
        = Inr (K * exp (- rf * T)
                 * norm_cdf (- ((ln (S0 / K) + (rf + 0.5 * sigma ^ 2) * T) / (sigma * sqrt T)
                                - sigma * sqrt T))
               - S0 * norm_cdf (- ((ln (S0 / K) + (rf + 0.5 * sigma ^ 2) * T) / (sigma * sqrt T)))))
   \<and> (0 \<le> sigma \<and> 0 \<le> T \<and> sigma * sqrt T = 0 \<and> 0 < S0 / K
        \<and> 0 < ln (S0 / K) + (rf + 0.5 * sigma ^ 2) * T \<longrightarrow>
      black_scholes_option norm_cdf S0 K T rf sigma ''call'' = Inr (S0 - K * exp (- rf * T))
    \<and> black_scholes_option norm_cdf S0 K T rf sigma ''put'' = Inr 0)
   \<and> (T < 0 \<and> K \<noteq> 0 \<and> option_type \<in> {''call'', ''put''} \<longrightarrow>
        black_scholes_option norm_cdf S0 K T rf sigma option_type = Inl NotReal)"
proof (intro conjI impI)
  assume "K \<noteq> 0 \<and> option_type \<in> {''call'', ''put''}"
  then show "(\<exists>v. black_scholes_option norm_cdf S0 K T rf sigma option_type = Inr v)
      \<or> black_scholes_option norm_cdf S0 K T rf sigma option_type = Inl NotReal"
    using black_scholes_no_exception by blast
next
  assume h: "sigma < 0 \<and> 0 < T \<and> 0 < S0 / K"
  then have K: "K \<noteq> 0" and s: "sigma \<noteq> 0" by auto
  from h show "black_scholes_option norm_cdf S0 K T rf sigma ''call''
        = Inr (S0 * norm_cdf ((ln (S0 / K) + (rf + 0.5 * sigma ^ 2) * T) / (sigma * sqrt T))
               - K * exp (- rf * T)
                 * norm_cdf ((ln (S0 / K) + (rf + 0.5 * sigma ^ 2) * T) / (sigma * sqrt T)
                             - sigma * sqrt T))"
    by (intro black_scholes_finite(1) K s) simp_all
  from h show "black_scholes_option norm_cdf S0 K T rf sigma ''put''
        = Inr (K * exp (- rf * T)
                 * norm_cdf (- ((ln (S0 / K) + (rf + 0.5 * sigma ^ 2) * T) / (sigma * sqrt T)
                                - sigma * sqrt T))
               - S0 * norm_cdf (- ((ln (S0 / K) + (rf + 0.5 * sigma ^ 2) * T) / (sigma * sqrt T))))"
    by (intro black_scholes_finite(2) K s) simp_all
next
  assume h: "0 \<le> sigma \<and> 0 \<le> T \<and> sigma * sqrt T = 0 \<and> 0 < S0 / K
        \<and> 0 < ln (S0 / K) + (rf + 0.5 * sigma ^ 2) * T"
  then have K: "K \<noteq> 0" by auto
  from h K show "black_scholes_option norm_cdf S0 K T rf sigma ''call'' = Inr (S0 - K * exp (- rf * T))"
    by (intro black_scholes_zero_denominator(1)) simp_all
  from h K show "black_scholes_option norm_cdf S0 K T rf sigma ''put'' = Inr 0"
    by (intro black_scholes_zero_denominator(2)) simp_all
next
  assume "T < 0 \<and> K \<noteq> 0 \<and> option_type \<in> {''call'', ''put''}"
  then show "black_scholes_option norm_cdf S0 K T rf sigma option_type = Inl NotReal"
    using black_scholes_negative_T by blast
qed

theorem black_scholes_no_validation_witness:
  "(- (1 / 5) :: real) < 0 \<and> (0::real) < 1 / 2 \<and> (0::real) < 100 / 90
   \<and> \<not> isl (black_scholes_option std_normal_cdf 100 90 (1 / 2) (1 / 50) (- (1 / 5)) ''put'')
   \<and> (0::real) \<le> 0 \<and> (0::real) \<le> 1 / 2 \<and> (0::real) * sqrt (1 / 2) = 0
   \<and> (0::real) < ln (100 / 90) + (1 / 50 + 0.5 * 0 ^ 2) * (1 / 2)
   \<and> black_scholes_option std_normal_cdf 100 90 (1 / 2) (1 / 50) 0 ''call''
        = Inr (100 - 90 * exp (- (1 / 50) * (1 / 2)))
   \<and> black_scholes_option std_normal_cdf 100 90 (1 / 2) (1 / 50) 0 ''put'' = Inr 0
   \<and> (0::real) < ln (100 / 90) + (1 / 50 + 0.5 * (1 / 5) ^ 2) * 0
   \<and> black_scholes_option std_normal_cdf 100 90 0 (1 / 50) (1 / 5) ''call'' = Inr 10
   \<and> (- 1 :: real) < 0 \<and> (90::real) \<noteq> 0 \<and> ''call'' \<in> {''call'', ''put''}
   \<and> black_scholes_option std_normal_cdf 100 90 (- 1) (1 / 50) (1 / 5) ''call'' = Inl NotReal"
proof -
  have p1: "(0::real) < ln (100 / 90) + (1 / 50 + 0.5 * 0 ^ 2) * (1 / 2)"
    by (rule add_pos_nonneg) (simp_all add: ln_gt_zero)
  have p2: "(0::real) < ln (100 / 90) + (1 / 50 + 0.5 * (1 / 5) ^ 2) * 0"
    by (rule add_pos_nonneg) (simp_all add: ln_gt_zero)
  from black_scholes_no_validation [where sigma = "- (1 / 5)" and T = "1 / 2" and ?S0.0 = 100 and K = 90
      and norm_cdf = std_normal_cdf and rf = "1 / 50" and option_type = "''put''"]
  have a: "\<not> isl (black_scholes_option std_normal_cdf 100 90 (1 / 2) (1 / 50) (- (1 / 5)) ''put'')"
    by simp
  from black_scholes_no_validation [where sigma = 0 and T = "1 / 2" and ?S0.0 = 100 and K = 90
      and norm_cdf = std_normal_cdf and rf = "1 / 50" and option_type = "''put''"] p1
  have b: "black_scholes_option std_normal_cdf 100 90 (1 / 2) (1 / 50) 0 ''call''
        = Inr (100 - 90 * exp (- (1 / 50) * (1 / 2)))"
    "black_scholes_option std_normal_cdf 100 90 (1 / 2) (1 / 50) 0 ''put'' = Inr 0"
    by simp_all
  from black_scholes_no_validation [where sigma = "1 / 5" and T = 0 and ?S0.0 = 100 and K = 90
      and norm_cdf = std_normal_cdf and rf = "1 / 50" and option_type = "''put''"] p2
  have c: "black_scholes_option std_normal_cdf 100 90 0 (1 / 50) (1 / 5) ''call'' = Inr 10"
    by simp
  from black_scholes_no_validation [where sigma = "1 / 5" and T = "- 1" and ?S0.0 = 100 and K = 90
      and norm_cdf = std_normal_cdf and rf = "1 / 50" and option_type = "''call''"]
  have d: "black_scholes_option std_normal_cdf 100 90 (- 1) (1 / 50) (1 / 5) ''call'' = Inl NotReal"
    by simp
  from a b c d p1 p2 show ?thesis by simp
qed

text \<open>
  C8. For \<open>S0 > 0\<close>, \<open>K > 0\<close>, \<open>T > 0\<close> and \<open>sigma > 0\<close>, and a distribution function with
  \<open>N (- x) = 1 - N x\<close> (as the standard normal one), the call price and the put price are
  both computed and call minus put equals \<open>S0 - K * exp (- rf * T)\<close>, in exact real
  arithmetic.
\<close>

theorem put_call_parity:
  assumes sym: "\<forall>x. norm_cdf (- x) = 1 - norm_cdf x"
    and S0: "0 < S0" and K: "0 < K" and T: "0 < T" and sigma: "0 < sigma"
  shows "\<exists>call put.
      black_scholes_option norm_cdf S0 K T rf sigma ''call'' = Inr call
    \<and> black_scholes_option norm_cdf S0 K T rf sigma ''put'' = Inr put
    \<and> call - put = S0 - K * exp (- (rf * T))"
proof -
  define d1 where "d1 = (ln (S0 / K) + (rf + 0.5 * sigma ^ 2) * T) / (sigma * sqrt T)"
  define d2 where "d2 = d1 - sigma * sqrt T"
  from S0 K T sigma have ok: "K \<noteq> 0" "0 < S0 / K" "0 < T" "sigma \<noteq> 0"
    by simp_all
  have c: "black_scholes_option norm_cdf S0 K T rf sigma ''call''
             = Inr (S0 * norm_cdf d1 - K * exp (- rf * T) * norm_cdf d2)"
    unfolding d1_def d2_def by (rule black_scholes_finite(1) [OF ok])
  have p: "black_scholes_option norm_cdf S0 K T rf sigma ''put''
             = Inr (K * exp (- rf * T) * norm_cdf (- d2) - S0 * norm_cdf (- d1))"
    unfolding d1_def d2_def by (rule black_scholes_finite(2) [OF ok])
  have "(S0 * norm_cdf d1 - K * exp (- rf * T) * norm_cdf d2)
          - (K * exp (- rf * T) * norm_cdf (- d2) - S0 * norm_cdf (- d1))
        = S0 - K * exp (- (rf * T))"
  proof -
    from sym have m: "norm_cdf (- d1) = 1 - norm_cdf d1" "norm_cdf (- d2) = 1 - norm_cdf d2"
      by simp_all
    show ?thesis unfolding m by (simp add: algebra_simps)
  qed
  with c p show ?thesis by blast
qed

theorem put_call_parity_witness:
  "(\<forall>x. std_normal_cdf (- x) = 1 - std_normal_cdf x)
   \<and> (0::real) < 100 \<and> (0::real) < 90 \<and> (0::real) < 1 / 2 \<and> (0::real) < 1 / 5
   \<and> (\<exists>call put.
      black_scholes_option std_normal_cdf 100 90 (1 / 2) (1 / 50) (1 / 5) ''call'' = Inr call
    \<and> black_scholes_option std_normal_cdf 100 90 (1 / 2) (1 / 50) (1 / 5) ''put'' = Inr put
    \<and> call - put = 100 - 90 * exp (- (1 / 50 * (1 / 2))))"
  using put_call_parity [of std_normal_cdf 100 90 "1 / 2" "1 / 5" "1 / 50"] std_normal_cdf_symmetric
  by simp

end
